theory Spec2Isabelle
  imports Complex_Main
begin

section \<open>Three-flavour neutrino oscillations in matter with NSI: the class PMNS_NSI\<close>

text \<open>
  A shallow embedding of \<^verbatim>\<open>PMNS_NSI.cxx\<close>. A \<^verbatim>\<open>double\<close> is read as a real number and a
  \<^verbatim>\<open>std::complex<double>\<close> as a complex number: rounding, infinities and NaN are outside
  the model. The flavour indices are C++ \<^verbatim>\<open>int\<close>s; they are only compared and counted
  up to the number of flavours, so they are mathematical integers here.
\<close>

subsection \<open>Data\<close>

text \<open>
  A two-dimensional array of complex numbers, read \<open>m i j\<close> for \<^verbatim>\<open>m[i][j]\<close>. The arrays
  of the class have three rows and three columns; the methods below guard every access
  so that only the indices 0, 1 and 2 are used.
\<close>

type_synonym matrix = "int \<Rightarrow> int \<Rightarrow> complex"

text \<open>The fields of \<^verbatim>\<open>fPath\<close> that the class reads.\<close>

record path =
  density :: real
  zoa :: real

text \<open>
  The class constants \<^verbatim>\<open>kGeV2eV\<close>, \<^verbatim>\<open>kK2\<close> and \<^verbatim>\<open>kGf\<close> are declared in the base class,
  whose source is not part of this development; they are parameters of the model.
\<close>

record constants =
  kGeV2eV :: real
  kK2 :: real
  kGf :: real

text \<open>
  The inherited part of an object: the fields of \<^verbatim>\<open>PMNS_Base\<close> and \<^verbatim>\<open>PMNS_Fast\<close> that
  \<^verbatim>\<open>PMNS_NSI\<close> reads or writes. The field \<open>cout\<close> holds the characters written to the
  standard output so far.
\<close>

record pmns_fast =
  fNumNus :: int
  fHms :: matrix
  fHam :: matrix
  fPath :: path
  fEnergy :: real
  fIsNuBar :: bool
  fGotES :: bool
  cout :: string

text \<open>The derived class adds the NSI coefficients \<^verbatim>\<open>fEps\<close>.\<close>

record pmns_nsi = pmns_fast +
  fEps :: matrix

text \<open>
  Modelled from the spec: \<^verbatim>\<open>PMNS_Base::zero\<close>, declared outside this source file, is
  "the complex zero value".
\<close>

definition zero :: complex where
  "zero = 0"

text \<open>
  An inherited method works on the inherited fields of the object and cannot reach
  the fields of the derived class.
\<close>

definition inherited :: "(pmns_fast \<Rightarrow> pmns_fast) \<Rightarrow> pmns_nsi \<Rightarrow> pmns_nsi" where
  "inherited f s = pmns_fast.extend (f (pmns_fast.truncate s)) (pmns_fast.more s)"

subsection \<open>Output\<close>

text \<open>The decimal text that \<^verbatim>\<open>operator<<\<close> writes for an \<^verbatim>\<open>int\<close>, and \<^verbatim>\<open>endl\<close>.\<close>

fun digits :: "nat \<Rightarrow> string" where
  "digits n =
     (if n < 10 then [''0123456789'' ! n]
      else digits (n div 10) @ [''0123456789'' ! (n mod 10)])"

definition show_int :: "int \<Rightarrow> string" where
  "show_int i = (if i < 0 then CHR ''-'' # digits (nat (- i)) else digits (nat i))"

definition endl :: string where
  "endl = [CHR 0x0A]"

text \<open>The two lines written when the indices come in reverse order (both accessors).\<close>

definition reverse_order_msg :: "int \<Rightarrow> int \<Rightarrow> string" where
  "reverse_order_msg flvi flvj =
     ''First argument should be smaller or equal to second argument'' @ endl @
     ''Setting reverse order (Eps_'' @ show_int flvj @ show_int flvi @ ''). '' @ endl"

text \<open>The line written when the pair is rejected; \<open>what\<close> is the closing sentence.\<close>

definition not_valid_msg :: "int \<Rightarrow> int \<Rightarrow> int \<Rightarrow> string \<Rightarrow> string" where
  "not_valid_msg flvi flvj n what =
     ''Eps_'' @ show_int flvi @ show_int flvj @ '' not valid for '' @ show_int n @
     '' neutrinos. '' @ what @ endl"

subsection \<open>Setting and reading the NSI coefficients\<close>

text \<open>
  The value that \<^verbatim>\<open>SetEps\<close> builds for an accepted pair: \<^verbatim>\<open>complex h = val\<close>, then
  \<^verbatim>\<open>h *= complex(cos(phase), sin(phase))\<close> off the diagonal, \<^verbatim>\<open>h += 1\<close> for the pair (0,0).

  \<^verbatim>\<open>SetEps\<close>: swap a reversed pair, reject a pair outside the upper triangle of the
  3x3 array, build the value, clear \<^verbatim>\<open>fGotES\<close> when the value changes, store it.
  The statement \<^verbatim>\<open>fGotES *= (fEps[flvi][flvj] == h)\<close> multiplies two \<^verbatim>\<open>bool\<close>s: the
  result is true exactly when both are.
\<close>

definition SetEps_value :: "int \<Rightarrow> int \<Rightarrow> real \<Rightarrow> real \<Rightarrow> complex" where
  "SetEps_value flvi flvj val phase =
     (let h = complex_of_real val
      in if flvi \<noteq> flvj then h * Complex (cos phase) (sin phase)
         else if flvi = 0 then h + 1
         else h)"

definition SetEps :: "int \<Rightarrow> int \<Rightarrow> real \<Rightarrow> real \<Rightarrow> pmns_nsi \<Rightarrow> pmns_nsi" where
  "SetEps flvi0 flvj0 val phase s0 =
     (let (flvi, flvj, s) =
            (if flvi0 > flvj0
             then (flvj0, flvi0, s0\<lparr>cout := cout s0 @ reverse_order_msg flvi0 flvj0\<rparr>)
             else (flvi0, flvj0, s0))
      in if flvi < 0 \<or> flvi > 2 \<or> flvj < flvi \<or> flvj > 2
         then s\<lparr>cout := cout s @ not_valid_msg flvi flvj (fNumNus s) ''Doing nothing.''\<rparr>
         else
           let h = SetEps_value flvi flvj val phase;
               s = s\<lparr>fGotES := (fGotES s \<and> fEps s flvi flvj = h)\<rparr>
           in s\<lparr>fEps := (fEps s)(flvi := (fEps s flvi)(flvj := h))\<rparr>)"

text \<open>\<^verbatim>\<open>GetEps\<close> returns the coefficient together with the object after the call.\<close>

definition GetEps :: "int \<Rightarrow> int \<Rightarrow> pmns_nsi \<Rightarrow> complex \<times> pmns_nsi" where
  "GetEps flvi0 flvj0 s0 =
     (let (flvi, flvj, s) =
            (if flvi0 > flvj0
             then (flvj0, flvi0, s0\<lparr>cout := cout s0 @ reverse_order_msg flvi0 flvj0\<rparr>)
             else (flvi0, flvj0, s0))
      in if flvi < 0 \<or> flvi > 2 \<or> flvj < flvi \<or> flvj > 2
         then (zero, s\<lparr>cout := cout s @ not_valid_msg flvi flvj (fNumNus s) ''Returning 0.''\<rparr>)
         else (fEps s flvi flvj, s))"

definition SetNSI ::
  "real \<Rightarrow> real \<Rightarrow> real \<Rightarrow> real \<Rightarrow> real \<Rightarrow> real \<Rightarrow> real \<Rightarrow> real \<Rightarrow> real \<Rightarrow> pmns_nsi \<Rightarrow> pmns_nsi"
where
  "SetNSI eps_ee eps_emu eps_etau eps_mumu eps_mutau eps_tautau
          delta_emu delta_etau delta_mutau s =
     (let s = SetEps 0 0 eps_ee 0 s;
          s = SetEps 1 1 eps_mumu 0 s;
          s = SetEps 2 2 eps_tautau 0 s;
          s = SetEps 0 1 eps_emu delta_emu s;
          s = SetEps 0 2 eps_etau delta_etau s;
          s = SetEps 1 2 eps_mutau delta_mutau s
      in s)"

definition SetEps_ee :: "real \<Rightarrow> pmns_nsi \<Rightarrow> pmns_nsi" where
  "SetEps_ee a s = SetEps 0 0 a 0 s"

definition SetEps_mumu :: "real \<Rightarrow> pmns_nsi \<Rightarrow> pmns_nsi" where
  "SetEps_mumu a s = SetEps 1 1 a 0 s"

definition SetEps_tautau :: "real \<Rightarrow> pmns_nsi \<Rightarrow> pmns_nsi" where
  "SetEps_tautau a s = SetEps 2 2 a 0 s"

definition SetEps_emu :: "real \<Rightarrow> real \<Rightarrow> pmns_nsi \<Rightarrow> pmns_nsi" where
  "SetEps_emu a phi s = SetEps 0 1 a phi s"

definition SetEps_etau :: "real \<Rightarrow> real \<Rightarrow> pmns_nsi \<Rightarrow> pmns_nsi" where
  "SetEps_etau a phi s = SetEps 0 2 a phi s"

definition SetEps_mutau :: "real \<Rightarrow> real \<Rightarrow> pmns_nsi \<Rightarrow> pmns_nsi" where
  "SetEps_mutau a phi s = SetEps 1 2 a phi s"

subsection \<open>The constructor\<close>

text \<open>
  \<^verbatim>\<open>PMNS_NSI::PMNS_NSI() : PMNS_Fast(), fEps()\<close>. The base-class constructor and the
  inherited \<^verbatim>\<open>SetStdPath\<close> are defined outside this source file: the inherited part of the
  object as \<^verbatim>\<open>PMNS_Fast()\<close> leaves it, and \<^verbatim>\<open>SetStdPath\<close>, are parameters. The member
  initialiser \<^verbatim>\<open>fEps()\<close> fills the array with the value-initialised complex number, zero.
\<close>

definition PMNS_NSI :: "pmns_fast \<Rightarrow> (pmns_fast \<Rightarrow> pmns_fast) \<Rightarrow> pmns_nsi" where
  "PMNS_NSI fast SetStdPath =
     (let s = pmns_fast.extend fast (pmns_nsi.fields (\<lambda>_ _. 0));
          s = inherited SetStdPath s
      in SetNSI 0 0 0 0 0 0 0 0 0 s)"

subsection \<open>Building the Hamiltonian\<close>

text \<open>The body of the inner loop: the assignment to \<^verbatim>\<open>fHam[i][j]\<close>.\<close>

definition UpdateHam_body :: "real \<Rightarrow> real \<Rightarrow> int \<Rightarrow> int \<Rightarrow> pmns_nsi \<Rightarrow> pmns_nsi" where
  "UpdateHam_body lv kr2GNe i j s =
     (if \<not> fIsNuBar s
      then s\<lparr>fHam := (fHam s)(i := (fHam s i)
             (j := fHms s i j / complex_of_real lv + complex_of_real kr2GNe * fEps s i j))\<rparr>
      else s\<lparr>fHam := (fHam s)(i := (fHam s i)
             (j := cnj (fHms s i j / complex_of_real lv - complex_of_real kr2GNe * fEps s i j)))\<rparr>)"

lemma fNumNus_UpdateHam_body [simp]: "fNumNus (UpdateHam_body lv kr2GNe i j s) = fNumNus s"
  by (simp add: UpdateHam_body_def)

text \<open>\<^verbatim>\<open>for(int j=i;j<fNumNus;j++)\<close>, entered with the current value of \<open>j\<close>.\<close>

function UpdateHam_j :: "real \<Rightarrow> real \<Rightarrow> int \<Rightarrow> int \<Rightarrow> pmns_nsi \<Rightarrow> pmns_nsi" where
  "UpdateHam_j lv kr2GNe i j s =
     (if j < fNumNus s then UpdateHam_j lv kr2GNe i (j + 1) (UpdateHam_body lv kr2GNe i j s)
      else s)"
  by pat_completeness auto
termination
  by (relation "measure (\<lambda>(lv, kr2GNe, i, j, s). nat (fNumNus s - j))") auto

declare UpdateHam_j.simps [simp del]

lemma fNumNus_UpdateHam_j [simp]: "fNumNus (UpdateHam_j lv kr2GNe i j s) = fNumNus s"
proof (induction lv kr2GNe i j s rule: UpdateHam_j.induct)
  case (1 lv kr2GNe i j s)
  show ?case
  proof (cases "j < fNumNus s")
    case True
    with "1" show ?thesis
      by (subst UpdateHam_j.simps) simp
  next
    case False
    then show ?thesis
      by (subst UpdateHam_j.simps) simp
  qed
qed

text \<open>\<^verbatim>\<open>for(int i=0;i<fNumNus;i++)\<close>, entered with the current value of \<open>i\<close>.\<close>

function UpdateHam_i :: "real \<Rightarrow> real \<Rightarrow> int \<Rightarrow> pmns_nsi \<Rightarrow> pmns_nsi" where
  "UpdateHam_i lv kr2GNe i s =
     (if i < fNumNus s then UpdateHam_i lv kr2GNe (i + 1) (UpdateHam_j lv kr2GNe i i s)
      else s)"
  by pat_completeness auto
termination
  by (relation "measure (\<lambda>(lv, kr2GNe, i, s). nat (fNumNus s - i))") auto

declare UpdateHam_i.simps [simp del]

text \<open>
  \<^verbatim>\<open>UpdateHam\<close>. The arrays \<^verbatim>\<open>fHam\<close> and \<^verbatim>\<open>fEps\<close> have three rows and columns: with more
  than three flavours the loops would index past them, which C++ leaves undefined; the
  model returns \<open>None\<close> there.
\<close>

definition UpdateHam :: "constants \<Rightarrow> pmns_nsi \<Rightarrow> pmns_nsi option" where
  "UpdateHam k s =
     (let lv = 2 * kGeV2eV k * fEnergy s;
          kr2GNe = kK2 k * sqrt 2 * kGf k;
          kr2GNe = kr2GNe * (density (fPath s) * zoa (fPath s))
      in if fNumNus s > 3 then None else Some (UpdateHam_i lv kr2GNe 0 s))"

text \<open>The value that the loop body assigns to \<^verbatim>\<open>fHam[i][j]\<close>, in either mode.\<close>

definition ham_entry :: "real \<Rightarrow> real \<Rightarrow> pmns_nsi \<Rightarrow> int \<Rightarrow> int \<Rightarrow> complex" where
  "ham_entry lv kr2GNe s i j =
     (if \<not> fIsNuBar s
      then fHms s i j / complex_of_real lv + complex_of_real kr2GNe * fEps s i j
      else cnj (fHms s i j / complex_of_real lv - complex_of_real kr2GNe * fEps s i j))"

subsection \<open>Programs over the public methods\<close>

text \<open>
  A call of one of the public methods, and the run of a sequence of calls on an
  object. Return values are dropped: a run is followed for its effect on the object
  and on the output. A run stops with \<open>None\<close> where \<^verbatim>\<open>UpdateHam\<close> does.
\<close>

datatype call =
    Call_SetNSI real real real real real real real real real
  | Call_SetEps int int real real
  | Call_GetEps int int
  | Call_SetEps_ee real
  | Call_SetEps_mumu real
  | Call_SetEps_tautau real
  | Call_SetEps_emu real real
  | Call_SetEps_etau real real
  | Call_SetEps_mutau real real
  | Call_UpdateHam

fun exec :: "constants \<Rightarrow> call \<Rightarrow> pmns_nsi \<Rightarrow> pmns_nsi option" where
  "exec k (Call_SetNSI a b c d e f g h i) s = Some (SetNSI a b c d e f g h i s)"
| "exec k (Call_SetEps flvi flvj val phase) s = Some (SetEps flvi flvj val phase s)"
| "exec k (Call_GetEps flvi flvj) s = Some (snd (GetEps flvi flvj s))"
| "exec k (Call_SetEps_ee a) s = Some (SetEps_ee a s)"
| "exec k (Call_SetEps_mumu a) s = Some (SetEps_mumu a s)"
| "exec k (Call_SetEps_tautau a) s = Some (SetEps_tautau a s)"
| "exec k (Call_SetEps_emu a phi) s = Some (SetEps_emu a phi s)"
| "exec k (Call_SetEps_etau a phi) s = Some (SetEps_etau a phi s)"
| "exec k (Call_SetEps_mutau a phi) s = Some (SetEps_mutau a phi s)"
| "exec k Call_UpdateHam s = UpdateHam k s"

fun run :: "constants \<Rightarrow> call list \<Rightarrow> pmns_nsi \<Rightarrow> pmns_nsi option" where
  "run k [] s = Some s"
| "run k (c # cs) s = (case exec k c s of None \<Rightarrow> None | Some s' \<Rightarrow> run k cs s')"

text \<open>The calls of \<^verbatim>\<open>GetEps\<close>, and an object with the printed output set aside.\<close>

fun is_GetEps :: "call \<Rightarrow> bool" where
  "is_GetEps (Call_GetEps flvi flvj) = True"
| "is_GetEps _ = False"

definition without_output :: "pmns_nsi \<Rightarrow> pmns_nsi" where
  "without_output s = s\<lparr>cout := []\<rparr>"

subsection \<open>Example objects\<close>

text \<open>Concrete constants and a concrete three-flavour object in neutrino mode.\<close>

definition example_constants :: constants where
  "example_constants = \<lparr>kGeV2eV = 1000000000, kK2 = 3, kGf = 5\<rparr>"

definition example_object :: pmns_nsi where
  "example_object =
     \<lparr>fNumNus = 3,
      fHms = (\<lambda>i j. if i = j then of_int i else \<i>),
      fHam = (\<lambda>_ _. 7),
      fPath = \<lparr>density = 2, zoa = 1 / 2\<rparr>,
      fEnergy = 1,
      fIsNuBar = False,
      fGotES = True,
      cout = [],
      fEps = (\<lambda>i j. if i = 0 \<and> j = 0 then 1 else 0)\<rparr>"

text \<open>
  An inherited part as a base-class constructor might leave it, and a stand-in for the
  inherited \<^verbatim>\<open>SetStdPath\<close>, which sets the path and marks the eigensystem as stale.
\<close>

definition example_fast :: pmns_fast where
  "example_fast =
     \<lparr>fNumNus = 3,
      fHms = (\<lambda>_ _. 0),
      fHam = (\<lambda>_ _. 0),
      fPath = \<lparr>density = 0, zoa = 0\<rparr>,
      fEnergy = 2,
      fIsNuBar = False,
      fGotES = False,
      cout = []\<rparr>"

definition example_SetStdPath :: "pmns_fast \<Rightarrow> pmns_fast" where
  "example_SetStdPath b = b\<lparr>fPath := \<lparr>density = 5 / 2, zoa = 1 / 2\<rparr>, fGotES := False\<rparr>"

section \<open>Properties\<close>

subsection \<open>The Hamiltonian of three flavours in closed form\<close>

lemma UpdateHam_body_entry:
  "UpdateHam_body lv kr i j s =
     s\<lparr>fHam := (fHam s)(i := (fHam s i)(j := ham_entry lv kr s i j))\<rparr>"
  by (simp add: UpdateHam_body_def ham_entry_def)

lemma ham_entry_fHam_update [simp]:
  "ham_entry lv kr (s\<lparr>fHam := h\<rparr>) i j = ham_entry lv kr s i j"
  by (simp add: ham_entry_def)

lemma UpdateHam_i_three:
  "fNumNus s = 3 \<Longrightarrow> UpdateHam_i lv kr 0 s =
     UpdateHam_body lv kr 2 2 (UpdateHam_body lv kr 1 2 (UpdateHam_body lv kr 1 1
       (UpdateHam_body lv kr 0 2 (UpdateHam_body lv kr 0 1 (UpdateHam_body lv kr 0 0 s)))))"
  by (simp add: UpdateHam_i.simps UpdateHam_j.simps)

lemma UpdateHam_i_three_fHam:
  assumes "fNumNus s = 3"
  shows "UpdateHam_i lv kr 0 s =
           s\<lparr>fHam := \<lambda>i j. if 0 \<le> i \<and> i \<le> j \<and> j \<le> 2 then ham_entry lv kr s i j
                            else fHam s i j\<rparr>"
proof -
  let ?H = "\<lambda>i j. if 0 \<le> i \<and> i \<le> j \<and> j \<le> 2 then ham_entry lv kr s i j else fHam s i j"
  have "UpdateHam_i lv kr 0 s = s\<lparr>fHam := (fHam s)
          (0 := (fHam s 0)(0 := ham_entry lv kr s 0 0, 1 := ham_entry lv kr s 0 1,
                           2 := ham_entry lv kr s 0 2),
           1 := (fHam s 1)(1 := ham_entry lv kr s 1 1, 2 := ham_entry lv kr s 1 2),
           2 := (fHam s 2)(2 := ham_entry lv kr s 2 2))\<rparr>"
    (is "_ = s\<lparr>fHam := ?G\<rparr>")
    by (simp add: UpdateHam_i_three [OF assms] UpdateHam_body_entry)
  moreover have "?G = ?H"
  proof (intro ext)
    fix i j :: int
    consider "i = 0" | "i = 1" | "i = 2" | "i < 0 \<or> 2 < i" by arith
    then show "?G i j = ?H i j"
    proof cases
      case 1
      consider "j = 0" | "j = 1" | "j = 2" | "j < 0 \<or> 2 < j" by arith
      then show ?thesis using 1 by cases auto
    next
      case 2
      consider "j = 0" | "j = 1" | "j = 2" | "j < 0 \<or> 2 < j" by arith
      then show ?thesis using 2 by cases auto
    next
      case 3
      consider "j = 0" | "j = 1" | "j = 2" | "j < 0 \<or> 2 < j" by arith
      then show ?thesis using 3 by cases auto
    next
      case 4
      then show ?thesis by auto
    qed
  qed
  ultimately show ?thesis by simp
qed

text \<open>
  With three flavours \<^verbatim>\<open>UpdateHam\<close> returns, and the object it leaves differs from the
  one it found in the upper triangle of \<^verbatim>\<open>fHam\<close> only.
\<close>

lemma UpdateHam_three:
  assumes "fNumNus s = 3"
  shows "UpdateHam k s = Some (s\<lparr>fHam := \<lambda>i j.
           if 0 \<le> i \<and> i \<le> j \<and> j \<le> 2
           then ham_entry (2 * kGeV2eV k * fEnergy s)
                  (kK2 k * sqrt 2 * kGf k * (density (fPath s) * zoa (fPath s))) s i j
           else fHam s i j\<rparr>)"
  using assms by (simp add: UpdateHam_def Let_def UpdateHam_i_three_fHam)

text \<open>With at most three flavours the loops stay inside the arrays.\<close>

lemma UpdateHam_returns: "fNumNus s \<le> 3 \<Longrightarrow> UpdateHam k s \<noteq> None"
  by (simp add: UpdateHam_def Let_def)

lemma kr2GNe_product:
  "kK2 k * sqrt 2 * kGf k * (density p * zoa p) = sqrt 2 * kK2 k * kGf k * density p * zoa p"
  by (simp add: mult_ac)

subsection \<open>Neutrino mode\<close>

text \<open>
  C1. For an object in neutrino mode (\<^verbatim>\<open>fIsNuBar\<close> false) with three flavours,
  \<^verbatim>\<open>UpdateHam\<close> returns, and afterwards every entry \<^verbatim>\<open>fHam[i][j]\<close> with
  \<open>0 \<le> i \<le> j \<le> 2\<close> is \<^verbatim>\<open>fHms[i][j] / lv + kr2GNe * fEps[i][j]\<close>, where
  \<open>lv = 2 * kGeV2eV * fEnergy\<close> and
  \<open>kr2GNe = sqrt 2 * kK2 * kGf * fPath.density * fPath.zoa\<close>.
\<close>

theorem UpdateHam_neutrino:
  assumes "\<not> fIsNuBar s" and "fNumNus s = 3"
  shows "\<exists>s'. UpdateHam k s = Some s' \<and>
           (\<forall>i j. 0 \<le> i \<and> i \<le> j \<and> j \<le> 2 \<longrightarrow>
              fHam s' i j =
                fHms s i j / complex_of_real (2 * kGeV2eV k * fEnergy s)
                + complex_of_real
                    (sqrt 2 * kK2 k * kGf k * density (fPath s) * zoa (fPath s))
                  * fEps s i j)"
  using assms
  by (simp add: UpdateHam_three ham_entry_def kr2GNe_product)

theorem UpdateHam_neutrino_witness:
  "\<not> fIsNuBar example_object \<and> fNumNus example_object = 3 \<and>
   (\<exists>s'. UpdateHam example_constants example_object = Some s' \<and>
      fHam s' 0 0 = complex_of_real (15 * sqrt 2) \<and>
      fHam s' 0 1 = \<i> / 2000000000 \<and>
      fHam s' 1 1 = 1 / 2000000000)"
proof -
  have nu: "\<not> fIsNuBar example_object" and three: "fNumNus example_object = 3"
    by (simp_all add: example_object_def)
  from UpdateHam_neutrino [OF nu three, of example_constants]
  obtain s' where run: "UpdateHam example_constants example_object = Some s'"
    and entries: "\<And>i j. 0 \<le> i \<and> i \<le> j \<and> j \<le> 2 \<Longrightarrow>
      fHam s' i j =
        fHms example_object i j
          / complex_of_real (2 * kGeV2eV example_constants * fEnergy example_object)
        + complex_of_real
            (sqrt 2 * kK2 example_constants * kGf example_constants
             * density (fPath example_object) * zoa (fPath example_object))
          * fEps example_object i j"
    by blast
  have "fHam s' 0 0 = complex_of_real (15 * sqrt 2)"
    using entries [of 0 0] by (simp add: example_object_def example_constants_def)
  moreover have "fHam s' 0 1 = \<i> / 2000000000"
    using entries [of 0 1] by (simp add: example_object_def example_constants_def)
  moreover have "fHam s' 1 1 = 1 / 2000000000"
    using entries [of 1 1] by (simp add: example_object_def example_constants_def)
  ultimately show ?thesis
    using nu three run by blast
qed

subsection \<open>Antineutrino mode against neutrino mode\<close>

text \<open>
  C2. Take two three-flavour objects with the same \<^verbatim>\<open>fHms\<close>, \<^verbatim>\<open>fEps\<close>, \<^verbatim>\<open>fPath\<close> and
  \<^verbatim>\<open>fEnergy\<close>, one in antineutrino mode and one in neutrino mode. \<^verbatim>\<open>UpdateHam\<close> returns
  on both, and for every \<open>0 \<le> i \<le> j \<le> 2\<close> the antineutrino run leaves
  \<^verbatim>\<open>fHam[i][j] = conj(fHms[i][j] / lv - kr2GNe * fEps[i][j])\<close> while the neutrino run
  leaves \<^verbatim>\<open>fHam[i][j] = fHms[i][j] / lv + kr2GNe * fEps[i][j]\<close>: the sign of the matter
  potential flips and the whole term is conjugated.
\<close>

theorem UpdateHam_antineutrino_relation:
  assumes "fNumNus sa = 3" and "fNumNus sn = 3"
    and "fIsNuBar sa" and "\<not> fIsNuBar sn"
    and "fHms sa = fHms sn" and "fEps sa = fEps sn"
    and "fPath sa = fPath sn" and "fEnergy sa = fEnergy sn"
  shows "\<exists>sa' sn'. UpdateHam k sa = Some sa' \<and> UpdateHam k sn = Some sn' \<and>
           (\<forall>i j. 0 \<le> i \<and> i \<le> j \<and> j \<le> 2 \<longrightarrow>
              fHam sa' i j =
                cnj (fHms sn i j / complex_of_real (2 * kGeV2eV k * fEnergy sn)
                     - complex_of_real
                         (sqrt 2 * kK2 k * kGf k * density (fPath sn) * zoa (fPath sn))
                       * fEps sn i j) \<and>
              fHam sn' i j =
                fHms sn i j / complex_of_real (2 * kGeV2eV k * fEnergy sn)
                + complex_of_real
                    (sqrt 2 * kK2 k * kGf k * density (fPath sn) * zoa (fPath sn))
                  * fEps sn i j)"
  using assms
  by (simp add: UpdateHam_three ham_entry_def kr2GNe_product)

theorem UpdateHam_antineutrino_relation_witness:
  "\<exists>sa' sn'.
     UpdateHam example_constants (example_object\<lparr>fIsNuBar := True\<rparr>) = Some sa' \<and>
     UpdateHam example_constants example_object = Some sn' \<and>
     fHam sa' 0 0 = complex_of_real (- (15 * sqrt 2)) \<and>
     fHam sn' 0 0 = complex_of_real (15 * sqrt 2) \<and>
     fHam sa' 0 1 = - \<i> / 2000000000 \<and>
     fHam sn' 0 1 = \<i> / 2000000000"
proof -
  let ?a = "example_object\<lparr>fIsNuBar := True\<rparr>" and ?n = example_object
  have "fNumNus ?a = 3" "fNumNus ?n = 3" "fIsNuBar ?a" "\<not> fIsNuBar ?n"
    "fHms ?a = fHms ?n" "fEps ?a = fEps ?n" "fPath ?a = fPath ?n" "fEnergy ?a = fEnergy ?n"
    by (simp_all add: example_object_def)
  from UpdateHam_antineutrino_relation [OF this, of example_constants]
  obtain sa' sn' where run: "UpdateHam example_constants ?a = Some sa'"
      "UpdateHam example_constants ?n = Some sn'"
    and entries: "\<And>i j. 0 \<le> i \<and> i \<le> j \<and> j \<le> 2 \<Longrightarrow>
      fHam sa' i j =
        cnj (fHms ?n i j
               / complex_of_real (2 * kGeV2eV example_constants * fEnergy ?n)
             - complex_of_real
                 (sqrt 2 * kK2 example_constants * kGf example_constants
                  * density (fPath ?n) * zoa (fPath ?n))
               * fEps ?n i j) \<and>
      fHam sn' i j =
        fHms ?n i j / complex_of_real (2 * kGeV2eV example_constants * fEnergy ?n)
        + complex_of_real
            (sqrt 2 * kK2 example_constants * kGf example_constants
             * density (fPath ?n) * zoa (fPath ?n))
          * fEps ?n i j"
    by blast
  have "fHam sa' 0 0 = complex_of_real (- (15 * sqrt 2)) \<and>
        fHam sn' 0 0 = complex_of_real (15 * sqrt 2)"
    using entries [of 0 0] by (simp add: example_object_def example_constants_def)
  moreover have "fHam sa' 0 1 = - \<i> / 2000000000 \<and> fHam sn' 0 1 = \<i> / 2000000000"
    using entries [of 0 1] by (simp add: example_object_def example_constants_def)
  ultimately show ?thesis
    using run by blast
qed

subsection \<open>What \<^verbatim>\<open>UpdateHam\<close> touches and what it reads\<close>

text \<open>
  C8. On a three-flavour object \<^verbatim>\<open>UpdateHam\<close> returns and changes the field \<^verbatim>\<open>fHam\<close>
  only, so \<^verbatim>\<open>fEps\<close> and \<^verbatim>\<open>fGotES\<close> are as before; within \<^verbatim>\<open>fHam\<close> every entry outside the
  upper triangle \<open>0 \<le> i \<le> j \<le> 2\<close> keeps its value; and every entry of the upper
  triangle is overwritten with a value fixed by \<^verbatim>\<open>fHms\<close>, \<^verbatim>\<open>fEps\<close>, \<^verbatim>\<open>fPath\<close>, \<^verbatim>\<open>fEnergy\<close>
  and \<^verbatim>\<open>fIsNuBar\<close>: a second three-flavour object that agrees on these five fields
  gets the same upper triangle, whatever its other fields, the old \<^verbatim>\<open>fHam\<close> included.
\<close>

theorem UpdateHam_frame:
  assumes "fNumNus s = 3" and "fNumNus t = 3"
    and "fHms t = fHms s" and "fEps t = fEps s" and "fPath t = fPath s"
    and "fEnergy t = fEnergy s" and "fIsNuBar t = fIsNuBar s"
  shows "\<exists>s' t'. UpdateHam k s = Some s' \<and> UpdateHam k t = Some t' \<and>
           s' = s\<lparr>fHam := fHam s'\<rparr> \<and> fEps s' = fEps s \<and> fGotES s' = fGotES s \<and>
           (\<forall>i j. \<not> (0 \<le> i \<and> i \<le> j \<and> j \<le> 2) \<longrightarrow> fHam s' i j = fHam s i j) \<and>
           (\<forall>i j. 0 \<le> i \<and> i \<le> j \<and> j \<le> 2 \<longrightarrow> fHam t' i j = fHam s' i j)"
  using assms
  by (simp add: UpdateHam_three ham_entry_def)

theorem UpdateHam_frame_witness:
  "\<exists>s' t'. UpdateHam example_constants example_object = Some s' \<and>
     UpdateHam example_constants (example_object\<lparr>fHam := \<lambda>_ _. 0, fGotES := False\<rparr>)
       = Some t' \<and>
     s' = example_object\<lparr>fHam := fHam s'\<rparr> \<and>
     fEps s' = fEps example_object \<and> fGotES s' \<and>
     fHam s' 1 0 = 7 \<and> fHam s' 0 3 = 7 \<and>
     fHam t' 0 1 = fHam s' 0 1 \<and> fHam t' 2 2 = fHam s' 2 2"
proof -
  let ?s = example_object
  let ?t = "example_object\<lparr>fHam := \<lambda>_ _. 0, fGotES := False\<rparr>"
  have "fNumNus ?s = 3" "fNumNus ?t = 3" "fHms ?t = fHms ?s" "fEps ?t = fEps ?s"
    "fPath ?t = fPath ?s" "fEnergy ?t = fEnergy ?s" "fIsNuBar ?t = fIsNuBar ?s"
    by (simp_all add: example_object_def)
  from UpdateHam_frame [OF this, of example_constants]
  obtain s' t' where run: "UpdateHam example_constants ?s = Some s'"
      "UpdateHam example_constants ?t = Some t'"
    and rest: "s' = ?s\<lparr>fHam := fHam s'\<rparr>" "fEps s' = fEps ?s" "fGotES s' = fGotES ?s"
    and lower: "\<And>i j. \<not> (0 \<le> i \<and> i \<le> j \<and> j \<le> 2) \<Longrightarrow> fHam s' i j = fHam ?s i j"
    and upper: "\<And>i j. 0 \<le> i \<and> i \<le> j \<and> j \<le> 2 \<Longrightarrow> fHam t' i j = fHam s' i j"
    by blast
  have "fGotES s'" using rest(3) by (simp add: example_object_def)
  moreover have "fHam s' 1 0 = 7" "fHam s' 0 3 = 7"
    using lower [of 1 0] lower [of 0 3] by (simp_all add: example_object_def)
  moreover have "fHam t' 0 1 = fHam s' 0 1" "fHam t' 2 2 = fHam s' 2 2"
    using upper [of 0 1] upper [of 2 2] by simp_all
  ultimately show ?thesis
    using run rest(1,2) by blast
qed

subsection \<open>The three ways through \<^verbatim>\<open>SetEps\<close> and \<^verbatim>\<open>GetEps\<close>\<close>

lemma SetEps_ordered:
  assumes "0 \<le> i" "i \<le> j" "j \<le> 2"
  shows "SetEps i j v p s =
     s\<lparr>fGotES := (fGotES s \<and> fEps s i j = SetEps_value i j v p),
       fEps := (fEps s)(i := (fEps s i)(j := SetEps_value i j v p))\<rparr>"
  using assms by (simp add: SetEps_def Let_def)

lemma SetEps_reversed:
  "j < i \<Longrightarrow> SetEps i j v p s = SetEps j i v p (s\<lparr>cout := cout s @ reverse_order_msg i j\<rparr>)"
  by (simp add: SetEps_def)

lemma SetEps_rejected:
  assumes "i \<le> j" "i < 0 \<or> 2 < j"
  shows "SetEps i j v p s =
           s\<lparr>cout := cout s @ not_valid_msg i j (fNumNus s) ''Doing nothing.''\<rparr>"
  using assms by (auto simp add: SetEps_def Let_def)

lemma GetEps_ordered:
  assumes "0 \<le> i" "i \<le> j" "j \<le> 2"
  shows "GetEps i j s = (fEps s i j, s)"
  using assms by (simp add: GetEps_def Let_def)

lemma GetEps_reversed:
  "j < i \<Longrightarrow> GetEps i j s = GetEps j i (s\<lparr>cout := cout s @ reverse_order_msg i j\<rparr>)"
  by (simp add: GetEps_def)

lemma GetEps_rejected:
  assumes "i \<le> j" "i < 0 \<or> 2 < j"
  shows "GetEps i j s =
           (0, s\<lparr>cout := cout s @ not_valid_msg i j (fNumNus s) ''Returning 0.''\<rparr>)"
  using assms by (auto simp add: GetEps_def Let_def zero_def)

text \<open>What a reversed and rejected call prints, and a rejected read.\<close>

lemma SetEps_report_example:
  "cout (SetEps 3 1 4 0 example_object) =
     ''First argument should be smaller or equal to second argument'' @ [CHR 0x0A] @
     ''Setting reverse order (Eps_13). '' @ [CHR 0x0A] @
     ''Eps_13 not valid for 3 neutrinos. Doing nothing.'' @ [CHR 0x0A]"
  by (simp add: SetEps_def example_object_def reverse_order_msg_def not_valid_msg_def
      show_int_def endl_def)

lemma GetEps_report_example:
  "cout (snd (GetEps (- 1) 0 example_object)) =
     ''Eps_-10 not valid for 3 neutrinos. Returning 0.'' @ [CHR 0x0A]"
  by (simp add: GetEps_def example_object_def reverse_order_msg_def not_valid_msg_def
      show_int_def endl_def)

lemma SetEps_value_diagonal:
  "SetEps_value i i v p = Complex v 0 + (if i = 0 then 1 else 0)"
  by (simp add: SetEps_value_def Let_def complex_eq_iff)

lemma SetEps_value_off_diagonal:
  "i \<noteq> j \<Longrightarrow> SetEps_value i j v p =
     complex_of_real v * (complex_of_real (cos p) + \<i> * complex_of_real (sin p))"
  by (simp add: SetEps_value_def Let_def complex_eq_iff)

subsection \<open>What \<^verbatim>\<open>SetEps\<close> stores\<close>

text \<open>
  C3. For a pair \<open>0 \<le> flvi \<le> flvj \<le> 2\<close>, \<^verbatim>\<open>SetEps(flvi, flvj, val, phase)\<close> stores at
  \<^verbatim>\<open>fEps[flvi][flvj]\<close>: on the diagonal the complex number with real part \<open>val\<close> and
  imaginary part 0, plus 1 exactly when \<open>flvi = 0\<close>, whatever the phase; off the
  diagonal \<open>val * (cos phase + \<i> * sin phase)\<close>. A following \<^verbatim>\<open>GetEps\<close> on the same
  pair returns the stored value.
\<close>

theorem SetEps_stores:
  assumes "0 \<le> flvi" and "flvi \<le> flvj" and "flvj \<le> 2"
  shows "fEps (SetEps flvi flvj val phase s) flvi flvj =
           (if flvi = flvj then Complex val 0 + (if flvi = 0 then 1 else 0)
            else complex_of_real val
                 * (complex_of_real (cos phase) + \<i> * complex_of_real (sin phase))) \<and>
         (flvi = flvj \<longrightarrow>
            fEps (SetEps flvi flvj val phase' s) flvi flvj =
            fEps (SetEps flvi flvj val phase s) flvi flvj) \<and>
         fst (GetEps flvi flvj (SetEps flvi flvj val phase s)) =
           fEps (SetEps flvi flvj val phase s) flvi flvj"
  using assms
  by (simp add: SetEps_ordered GetEps_ordered SetEps_value_diagonal SetEps_value_off_diagonal)

theorem SetEps_stores_witness:
  "fst (GetEps 0 0 (SetEps 0 0 4 (pi / 2) example_object)) = 5 \<and>
   fst (GetEps 1 1 (SetEps 1 1 4 (pi / 2) example_object)) = 4 \<and>
   fst (GetEps 0 2 (SetEps 0 2 4 (pi / 2) example_object)) = 4 * \<i> \<and>
   fEps (SetEps 1 1 4 0 example_object) 1 1 = fEps (SetEps 1 1 4 (pi / 2) example_object) 1 1"
proof -
  have "fst (GetEps 0 0 (SetEps 0 0 4 (pi / 2) example_object)) = 5"
    using SetEps_stores [of 0 0 4 "pi / 2" example_object]
    by (simp add: complex_eq_iff)
  moreover have "fst (GetEps 1 1 (SetEps 1 1 4 (pi / 2) example_object)) = 4"
    using SetEps_stores [of 1 1 4 "pi / 2" example_object]
    by (simp add: complex_eq_iff)
  moreover have "fst (GetEps 0 2 (SetEps 0 2 4 (pi / 2) example_object)) = 4 * \<i>"
    using SetEps_stores [of 0 2 4 "pi / 2" example_object]
    by (simp add: complex_eq_iff)
  moreover have "fEps (SetEps 1 1 4 0 example_object) 1 1 =
      fEps (SetEps 1 1 4 (pi / 2) example_object) 1 1"
    using SetEps_stores [of 1 1 4 "pi / 2" example_object 0] by simp
  ultimately show ?thesis by blast
qed

subsection \<open>Change tracking\<close>

lemma SetEps_keeps_dirty: "fGotES (SetEps a b v p s) \<Longrightarrow> fGotES s"
  by (auto simp add: SetEps_def Let_def split: if_splits)

lemma GetEps_only_prints: "snd (GetEps a b s) = s\<lparr>cout := cout (snd (GetEps a b s))\<rparr>"
  by (simp add: GetEps_def Let_def)

lemma SetNSI_calls:
  "SetNSI eps_ee eps_emu eps_etau eps_mumu eps_mutau eps_tautau
          delta_emu delta_etau delta_mutau s =
     SetEps 1 2 eps_mutau delta_mutau (SetEps 0 2 eps_etau delta_etau
       (SetEps 0 1 eps_emu delta_emu (SetEps 2 2 eps_tautau 0
         (SetEps 1 1 eps_mumu 0 (SetEps 0 0 eps_ee 0 s)))))"
  by (simp add: SetNSI_def Let_def)

lemma SetNSI_fGotES:
  "fGotES (SetNSI eps_ee eps_emu eps_etau eps_mumu eps_mutau eps_tautau
             delta_emu delta_etau delta_mutau s) =
     (fGotES s \<and> fEps s 0 0 = SetEps_value 0 0 eps_ee 0 \<and>
      fEps s 1 1 = SetEps_value 1 1 eps_mumu 0 \<and>
      fEps s 2 2 = SetEps_value 2 2 eps_tautau 0 \<and>
      fEps s 0 1 = SetEps_value 0 1 eps_emu delta_emu \<and>
      fEps s 0 2 = SetEps_value 0 2 eps_etau delta_etau \<and>
      fEps s 1 2 = SetEps_value 1 2 eps_mutau delta_mutau)"
  by (simp add: SetNSI_calls SetEps_ordered)

lemma SetNSI_fEps:
  "fEps (SetNSI eps_ee eps_emu eps_etau eps_mumu eps_mutau eps_tautau
           delta_emu delta_etau delta_mutau s) =
     (fEps s)
       (0 := (fEps s 0)(0 := SetEps_value 0 0 eps_ee 0,
                        1 := SetEps_value 0 1 eps_emu delta_emu,
                        2 := SetEps_value 0 2 eps_etau delta_etau),
        1 := (fEps s 1)(1 := SetEps_value 1 1 eps_mumu 0,
                        2 := SetEps_value 1 2 eps_mutau delta_mutau),
        2 := (fEps s 2)(2 := SetEps_value 2 2 eps_tautau 0))"
  by (simp add: SetNSI_calls SetEps_ordered fun_upd_twist)

lemma SetNSI_frame:
  "SetNSI eps_ee eps_emu eps_etau eps_mumu eps_mutau eps_tautau
          delta_emu delta_etau delta_mutau s =
     s\<lparr>fGotES := fGotES (SetNSI eps_ee eps_emu eps_etau eps_mumu eps_mutau eps_tautau
                          delta_emu delta_etau delta_mutau s),
       fEps := fEps (SetNSI eps_ee eps_emu eps_etau eps_mumu eps_mutau eps_tautau
                          delta_emu delta_etau delta_mutau s)\<rparr>"
  by (simp add: SetNSI_calls SetEps_ordered)

text \<open>
  C4. Take a pair \<open>0 \<le> flvi \<le> flvj \<le> 2\<close> and a call of \<^verbatim>\<open>SetEps\<close> on it, with the
  indices in either order. If the value the call builds equals the coefficient
  stored at \<^verbatim>\<open>fEps[flvi][flvj]\<close>, the flag \<^verbatim>\<open>fGotES\<close> is as before; if it differs, the
  flag is false afterwards. \<^verbatim>\<open>SetNSI\<close> and the six wrappers follow the same rule for the
  coefficients they set: the flag stays true exactly when it was true and none of
  them changes. No operation on the NSI parameters (\<^verbatim>\<open>SetEps\<close> and \<^verbatim>\<open>GetEps\<close> on
  any indices, \<^verbatim>\<open>SetNSI\<close>, the wrappers) turns a false flag true.
\<close>

theorem SetEps_tracks_changes:
  "(0 \<le> flvi \<and> flvi \<le> flvj \<and> flvj \<le> 2 \<longrightarrow>
      (fEps s flvi flvj = SetEps_value flvi flvj val phase \<longrightarrow>
         fGotES (SetEps flvi flvj val phase s) = fGotES s \<and>
         fGotES (SetEps flvj flvi val phase s) = fGotES s) \<and>
      (fEps s flvi flvj \<noteq> SetEps_value flvi flvj val phase \<longrightarrow>
         \<not> fGotES (SetEps flvi flvj val phase s) \<and>
         \<not> fGotES (SetEps flvj flvi val phase s))) \<and>
   fGotES (SetNSI eps_ee eps_emu eps_etau eps_mumu eps_mutau eps_tautau
             delta_emu delta_etau delta_mutau s) =
     (fGotES s \<and> fEps s 0 0 = SetEps_value 0 0 eps_ee 0 \<and>
      fEps s 1 1 = SetEps_value 1 1 eps_mumu 0 \<and>
      fEps s 2 2 = SetEps_value 2 2 eps_tautau 0 \<and>
      fEps s 0 1 = SetEps_value 0 1 eps_emu delta_emu \<and>
      fEps s 0 2 = SetEps_value 0 2 eps_etau delta_etau \<and>
      fEps s 1 2 = SetEps_value 1 2 eps_mutau delta_mutau) \<and>
   fGotES (SetEps_ee a s) = (fGotES s \<and> fEps s 0 0 = SetEps_value 0 0 a 0) \<and>
   fGotES (SetEps_mumu a s) = (fGotES s \<and> fEps s 1 1 = SetEps_value 1 1 a 0) \<and>
   fGotES (SetEps_tautau a s) = (fGotES s \<and> fEps s 2 2 = SetEps_value 2 2 a 0) \<and>
   fGotES (SetEps_emu a phi s) = (fGotES s \<and> fEps s 0 1 = SetEps_value 0 1 a phi) \<and>
   fGotES (SetEps_etau a phi s) = (fGotES s \<and> fEps s 0 2 = SetEps_value 0 2 a phi) \<and>
   fGotES (SetEps_mutau a phi s) = (fGotES s \<and> fEps s 1 2 = SetEps_value 1 2 a phi) \<and>
   (\<not> fGotES s \<longrightarrow>
      \<not> fGotES (SetEps i j val phase s) \<and> \<not> fGotES (snd (GetEps i j s)))"
proof -
  have either_order: "fGotES (SetEps flvi flvj val phase s) =
        (fGotES s \<and> fEps s flvi flvj = SetEps_value flvi flvj val phase) \<and>
      fGotES (SetEps flvj flvi val phase s) =
        (fGotES s \<and> fEps s flvi flvj = SetEps_value flvi flvj val phase)"
    if valid: "0 \<le> flvi \<and> flvi \<le> flvj \<and> flvj \<le> 2"
  proof (cases "flvi = flvj")
    case True
    with valid show ?thesis by (simp add: SetEps_ordered)
  next
    case False
    with valid have "flvi < flvj" by simp
    with valid show ?thesis by (simp add: SetEps_reversed SetEps_ordered)
  qed
  have wrappers:
    "fGotES (SetEps_ee a s) = (fGotES s \<and> fEps s 0 0 = SetEps_value 0 0 a 0)"
    "fGotES (SetEps_mumu a s) = (fGotES s \<and> fEps s 1 1 = SetEps_value 1 1 a 0)"
    "fGotES (SetEps_tautau a s) = (fGotES s \<and> fEps s 2 2 = SetEps_value 2 2 a 0)"
    "fGotES (SetEps_emu a phi s) = (fGotES s \<and> fEps s 0 1 = SetEps_value 0 1 a phi)"
    "fGotES (SetEps_etau a phi s) = (fGotES s \<and> fEps s 0 2 = SetEps_value 0 2 a phi)"
    "fGotES (SetEps_mutau a phi s) = (fGotES s \<and> fEps s 1 2 = SetEps_value 1 2 a phi)"
    by (simp_all add: SetEps_ee_def SetEps_mumu_def SetEps_tautau_def SetEps_emu_def
        SetEps_etau_def SetEps_mutau_def SetEps_ordered)
  have get: "fGotES (snd (GetEps i j s)) = fGotES s"
    by (subst GetEps_only_prints) simp
  have dirty: "\<not> fGotES s \<longrightarrow>
      \<not> fGotES (SetEps i j val phase s) \<and> \<not> fGotES (snd (GetEps i j s))"
    using SetEps_keeps_dirty [of i j val phase s] get by blast
  from either_order wrappers dirty show ?thesis
    unfolding SetNSI_fGotES by blast
qed

theorem SetEps_tracks_changes_witness:
  "fGotES (SetEps 0 1 0 0 example_object) \<and>
   fGotES (SetEps 1 0 0 0 example_object) \<and>
   \<not> fGotES (SetEps 0 1 1 0 example_object) \<and>
   \<not> fGotES (SetEps 1 0 1 0 example_object) \<and>
   \<not> fGotES (SetEps 0 0 1 0 (example_object\<lparr>fGotES := False\<rparr>)) \<and>
   \<not> fGotES (snd (GetEps 5 0 (example_object\<lparr>fGotES := False\<rparr>)))"
proof -
  have same: "fEps example_object 0 1 = SetEps_value 0 1 0 0"
    and other: "fEps example_object 0 1 \<noteq> SetEps_value 0 1 1 0"
    and clean: "fGotES example_object"
    by (simp_all add: example_object_def SetEps_value_def complex_eq_iff)
  have "fGotES (SetEps 0 1 0 0 example_object) \<and> fGotES (SetEps 1 0 0 0 example_object)"
    using SetEps_tracks_changes [of 0 1 example_object 0 0] same clean by simp
  moreover have "\<not> fGotES (SetEps 0 1 1 0 example_object) \<and>
      \<not> fGotES (SetEps 1 0 1 0 example_object)"
    using SetEps_tracks_changes [of 0 1 example_object 1 0] other by simp
  moreover have "\<not> fGotES (SetEps 0 0 1 0 (example_object\<lparr>fGotES := False\<rparr>)) \<and>
      \<not> fGotES (snd (GetEps 5 0 (example_object\<lparr>fGotES := False\<rparr>)))"
    using SetEps_tracks_changes
      [where s = "example_object\<lparr>fGotES := False\<rparr>" and i = 0 and j = 0
         and val = 1 and phase = 0]
      SetEps_tracks_changes
      [where s = "example_object\<lparr>fGotES := False\<rparr>" and i = 5 and j = 0]
    by simp
  ultimately show ?thesis by blast
qed

subsection \<open>The order of the two indices\<close>

text \<open>
  C5. For \<open>flvi > flvj\<close>, both in \<open>[0,2]\<close>, \<^verbatim>\<open>SetEps(flvi, flvj, val, phase)\<close> followed
  by \<^verbatim>\<open>GetEps(flvi, flvj)\<close> returns the same value as \<^verbatim>\<open>SetEps(flvj, flvi, val, phase)\<close>
  followed by \<^verbatim>\<open>GetEps(flvj, flvi)\<close>, namely the value built for the pair
  \<open>(flvj, flvi)\<close>; the two calls of \<^verbatim>\<open>SetEps\<close> leave the same \<^verbatim>\<open>fEps\<close> and the same
  \<^verbatim>\<open>fGotES\<close>, and the objects they leave differ in nothing but the two printed lines
  that report the reversal.
\<close>

theorem SetEps_swap_symmetry:
  assumes "flvj < flvi" and "0 \<le> flvj" and "flvi \<le> 2"
  shows "fst (GetEps flvi flvj (SetEps flvi flvj val phase s)) =
           fst (GetEps flvj flvi (SetEps flvj flvi val phase s)) \<and>
         fst (GetEps flvi flvj (SetEps flvi flvj val phase s)) =
           SetEps_value flvj flvi val phase \<and>
         fEps (SetEps flvi flvj val phase s) = fEps (SetEps flvj flvi val phase s) \<and>
         fGotES (SetEps flvi flvj val phase s) = fGotES (SetEps flvj flvi val phase s) \<and>
         SetEps flvi flvj val phase s =
           (SetEps flvj flvi val phase s)\<lparr>cout := cout s @ reverse_order_msg flvi flvj\<rparr>"
  using assms
  by (simp add: SetEps_reversed GetEps_reversed SetEps_ordered GetEps_ordered)

theorem SetEps_swap_symmetry_witness:
  "fst (GetEps 2 0 (SetEps 2 0 4 0 example_object)) = 4 \<and>
   fst (GetEps 0 2 (SetEps 0 2 4 0 example_object)) = 4 \<and>
   fEps (SetEps 2 0 4 0 example_object) = fEps (SetEps 0 2 4 0 example_object) \<and>
   fGotES (SetEps 2 0 4 0 example_object) = fGotES (SetEps 0 2 4 0 example_object)"
proof -
  have "(0::int) < 2" "(0::int) \<le> 0" "(2::int) \<le> 2" by simp_all
  note swap = SetEps_swap_symmetry [OF this, of 4 0 example_object]
  have built: "SetEps_value 0 2 4 0 = 4"
    by (simp add: SetEps_value_def complex_eq_iff)
  from swap have "fst (GetEps 2 0 (SetEps 2 0 4 0 example_object)) = SetEps_value 0 2 4 0"
    by blast
  moreover from swap have "fst (GetEps 2 0 (SetEps 2 0 4 0 example_object)) =
      fst (GetEps 0 2 (SetEps 0 2 4 0 example_object))"
    by blast
  moreover from swap
  have "fEps (SetEps 2 0 4 0 example_object) = fEps (SetEps 0 2 4 0 example_object)"
    "fGotES (SetEps 2 0 4 0 example_object) = fGotES (SetEps 0 2 4 0 example_object)"
    by blast+
  ultimately show ?thesis
    using built by metis
qed

subsection \<open>Rejected pairs\<close>

text \<open>
  C6. If the smaller of the two indices is negative or the larger exceeds 2, then
  \<^verbatim>\<open>SetEps\<close> changes neither \<^verbatim>\<open>fEps\<close> nor \<^verbatim>\<open>fGotES\<close> (it changes nothing but the printed
  output) and \<^verbatim>\<open>GetEps\<close> returns the complex zero, whether or not the other index is in
  range.
\<close>

theorem invalid_pair_rejected:
  assumes "min flvi flvj < 0 \<or> 2 < max flvi flvj"
  shows "fEps (SetEps flvi flvj val phase s) = fEps s \<and>
         fGotES (SetEps flvi flvj val phase s) = fGotES s \<and>
         SetEps flvi flvj val phase s = s\<lparr>cout := cout (SetEps flvi flvj val phase s)\<rparr> \<and>
         fst (GetEps flvi flvj s) = 0"
proof (cases "flvj < flvi")
  case True
  with assms have "flvj \<le> flvi" "flvj < 0 \<or> 2 < flvi" by auto
  with True show ?thesis
    by (simp add: SetEps_reversed GetEps_reversed SetEps_rejected GetEps_rejected)
next
  case False
  with assms have "flvi \<le> flvj" "flvi < 0 \<or> 2 < flvj" by auto
  then show ?thesis
    by (simp add: SetEps_rejected GetEps_rejected)
qed

theorem invalid_pair_rejected_witness:
  "fEps (SetEps 3 1 4 0 example_object) = fEps example_object \<and>
   fGotES (SetEps 3 1 4 0 example_object) \<and>
   fst (GetEps 3 1 example_object) = 0 \<and>
   fEps (SetEps (- 1) 0 4 0 example_object) = fEps example_object \<and>
   fst (GetEps (- 1) 0 example_object) = 0 \<and>
   fst (GetEps 0 0 example_object) = 1"
proof -
  have "fEps (SetEps 3 1 4 0 example_object) = fEps example_object \<and>
      fGotES (SetEps 3 1 4 0 example_object) \<and> fst (GetEps 3 1 example_object) = 0"
    using invalid_pair_rejected [of 3 1 4 0 example_object]
    by (simp add: example_object_def)
  moreover have "fEps (SetEps (- 1) 0 4 0 example_object) = fEps example_object \<and>
      fst (GetEps (- 1) 0 example_object) = 0"
    using invalid_pair_rejected [of "- 1" 0 4 0 example_object] by simp
  moreover have "fst (GetEps 0 0 example_object) = 1"
    by (simp add: GetEps_ordered example_object_def)
  ultimately show ?thesis by blast
qed

subsection \<open>Setting all parameters at once\<close>

lemma SetEps_value_zero:
  "SetEps_value i j 0 0 = (if i = 0 \<and> j = 0 then 1 else 0)"
  by (simp add: SetEps_value_def)

lemma SetNSI_zero_fEps:
  "fEps (SetNSI 0 0 0 0 0 0 0 0 0 s) i j =
     (if 0 \<le> i \<and> i \<le> j \<and> j \<le> 2 then if i = 0 \<and> j = 0 then 1 else 0 else fEps s i j)"
proof -
  consider "i = 0" | "i = 1" | "i = 2" | "i < 0 \<or> 2 < i" by arith
  then show ?thesis
  proof cases
    case 1
    consider "j = 0" | "j = 1" | "j = 2" | "j < 0 \<or> 2 < j" by arith
    then show ?thesis using 1 by cases (auto simp add: SetNSI_fEps SetEps_value_zero)
  next
    case 2
    consider "j = 0" | "j = 1" | "j = 2" | "j < 0 \<or> 2 < j" by arith
    then show ?thesis using 2 by cases (auto simp add: SetNSI_fEps SetEps_value_zero)
  next
    case 3
    consider "j = 0" | "j = 1" | "j = 2" | "j < 0 \<or> 2 < j" by arith
    then show ?thesis using 3 by cases (auto simp add: SetNSI_fEps SetEps_value_zero)
  next
    case 4
    then show ?thesis by (auto simp add: SetNSI_fEps)
  qed
qed

text \<open>
  C7. \<^verbatim>\<open>SetNSI\<close> is the six calls \<^verbatim>\<open>SetEps(0,0,eps_ee,0)\<close>, \<^verbatim>\<open>SetEps(1,1,eps_mumu,0)\<close>,
  \<^verbatim>\<open>SetEps(2,2,eps_tautau,0)\<close>, \<^verbatim>\<open>SetEps(0,1,eps_emu,delta_emu)\<close>,
  \<^verbatim>\<open>SetEps(0,2,eps_etau,delta_etau)\<close>, \<^verbatim>\<open>SetEps(1,2,eps_mutau,delta_mutau)\<close>, in this order.
  After \<^verbatim>\<open>SetNSI\<close> with nine zeros the stored coefficients, those of the upper triangle,
  are \<open>diag(1,0,0)\<close>, and the entries below the diagonal are as before (zero in an object
  whose array started at zero). A \<^verbatim>\<open>UpdateHam\<close> in neutrino mode with three flavours then
  leaves \<^verbatim>\<open>fHam[i][j] = fHms[i][j] / (2 * kGeV2eV * fEnergy)\<close> plus
  \<open>sqrt 2 * kGf * kK2 * density * zoa\<close> times the entry of \<open>diag(1,0,0)\<close>.
\<close>

theorem SetNSI_six_calls:
  "SetNSI eps_ee eps_emu eps_etau eps_mumu eps_mutau eps_tautau
          delta_emu delta_etau delta_mutau s =
     SetEps 1 2 eps_mutau delta_mutau (SetEps 0 2 eps_etau delta_etau
       (SetEps 0 1 eps_emu delta_emu (SetEps 2 2 eps_tautau 0
         (SetEps 1 1 eps_mumu 0 (SetEps 0 0 eps_ee 0 s))))) \<and>
   (\<forall>i j. 0 \<le> i \<and> i \<le> j \<and> j \<le> 2 \<longrightarrow>
      fEps (SetNSI 0 0 0 0 0 0 0 0 0 s) i j = (if i = 0 \<and> j = 0 then 1 else 0)) \<and>
   (\<forall>i j. \<not> (0 \<le> i \<and> i \<le> j \<and> j \<le> 2) \<longrightarrow>
      fEps (SetNSI 0 0 0 0 0 0 0 0 0 s) i j = fEps s i j) \<and>
   ((\<forall>i j. fEps s i j = 0) \<longrightarrow>
      (\<forall>i j. fEps (SetNSI 0 0 0 0 0 0 0 0 0 s) i j = (if i = 0 \<and> j = 0 then 1 else 0))) \<and>
   (fNumNus s = 3 \<and> \<not> fIsNuBar s \<longrightarrow>
      (\<exists>s'. UpdateHam k (SetNSI 0 0 0 0 0 0 0 0 0 s) = Some s' \<and>
         (\<forall>i j. 0 \<le> i \<and> i \<le> j \<and> j \<le> 2 \<longrightarrow>
            fHam s' i j =
              fHms s i j / complex_of_real (2 * kGeV2eV k * fEnergy s)
              + complex_of_real (sqrt 2 * kGf k * kK2 k * density (fPath s) * zoa (fPath s))
                * (if i = 0 \<and> j = 0 then 1 else 0))))"
proof -
  let ?z = "SetNSI 0 0 0 0 0 0 0 0 0 s"
  have fields: "fNumNus ?z = fNumNus s" "fIsNuBar ?z = fIsNuBar s" "fHms ?z = fHms s"
    "fPath ?z = fPath s" "fEnergy ?z = fEnergy s"
    by (subst SetNSI_frame, simp)+
  have ham: "\<exists>s'. UpdateHam k ?z = Some s' \<and>
         (\<forall>i j. 0 \<le> i \<and> i \<le> j \<and> j \<le> 2 \<longrightarrow>
            fHam s' i j =
              fHms s i j / complex_of_real (2 * kGeV2eV k * fEnergy s)
              + complex_of_real (sqrt 2 * kGf k * kK2 k * density (fPath s) * zoa (fPath s))
                * (if i = 0 \<and> j = 0 then 1 else 0))"
    if "fNumNus s = 3 \<and> \<not> fIsNuBar s"
  proof -
    from that have "fNumNus ?z = 3" by (simp add: fields)
    then have "UpdateHam k ?z = Some (?z\<lparr>fHam := \<lambda>i j.
           if 0 \<le> i \<and> i \<le> j \<and> j \<le> 2
           then ham_entry (2 * kGeV2eV k * fEnergy ?z)
                  (kK2 k * sqrt 2 * kGf k * (density (fPath ?z) * zoa (fPath ?z))) ?z i j
           else fHam ?z i j\<rparr>)"
      by (rule UpdateHam_three)
    with that show ?thesis
      by (simp add: ham_entry_def fields SetNSI_zero_fEps mult_ac)
  qed
  show ?thesis
    using ham by (simp add: SetNSI_calls [symmetric] SetNSI_zero_fEps)
qed

theorem SetNSI_six_calls_witness:
  "fEps (SetNSI 0 0 0 0 0 0 0 0 0 (example_object\<lparr>fEps := \<lambda>_ _. 9\<rparr>)) 0 0 = 1 \<and>
   fEps (SetNSI 0 0 0 0 0 0 0 0 0 (example_object\<lparr>fEps := \<lambda>_ _. 9\<rparr>)) 1 2 = 0 \<and>
   fEps (SetNSI 0 0 0 0 0 0 0 0 0 (example_object\<lparr>fEps := \<lambda>_ _. 9\<rparr>)) 2 1 = 9 \<and>
   fEps (SetNSI 0 0 0 0 0 0 0 0 0 (example_object\<lparr>fEps := \<lambda>_ _. 0\<rparr>)) 2 1 = 0 \<and>
   (\<exists>s'. UpdateHam example_constants
            (SetNSI 0 0 0 0 0 0 0 0 0 (example_object\<lparr>fEps := \<lambda>_ _. 9\<rparr>)) = Some s' \<and>
      fHam s' 0 0 = complex_of_real (15 * sqrt 2) \<and>
      fHam s' 1 1 = 1 / 2000000000 \<and>
      fHam s' 1 2 = \<i> / 2000000000)"
proof -
  let ?s = "example_object\<lparr>fEps := \<lambda>_ _. 9\<rparr>"
  let ?t = "example_object\<lparr>fEps := \<lambda>_ _. 0\<rparr>"
  note at_s = SetNSI_six_calls [where s = ?s and k = example_constants, THEN conjunct2]
  note at_t = SetNSI_six_calls [where s = ?t and k = example_constants, THEN conjunct2]
  from at_s have in_upper: "\<And>i j. 0 \<le> i \<and> i \<le> j \<and> j \<le> 2 \<Longrightarrow>
      fEps (SetNSI 0 0 0 0 0 0 0 0 0 ?s) i j = (if i = 0 \<and> j = 0 then 1 else 0)"
    and in_lower: "\<And>i j. \<not> (0 \<le> i \<and> i \<le> j \<and> j \<le> 2) \<Longrightarrow>
      fEps (SetNSI 0 0 0 0 0 0 0 0 0 ?s) i j = fEps ?s i j"
    by blast+
  from at_t have from_zero: "(\<forall>i j. fEps ?t i j = 0) \<Longrightarrow>
      (\<forall>i j. fEps (SetNSI 0 0 0 0 0 0 0 0 0 ?t) i j = (if i = 0 \<and> j = 0 then 1 else 0))"
    by blast
  have upper: "fEps (SetNSI 0 0 0 0 0 0 0 0 0 ?s) 0 0 = 1"
      "fEps (SetNSI 0 0 0 0 0 0 0 0 0 ?s) 1 2 = 0"
    using in_upper [of 0 0] in_upper [of 1 2] by simp_all
  have lower: "fEps (SetNSI 0 0 0 0 0 0 0 0 0 ?s) 2 1 = 9"
    using in_lower [of 2 1] by simp
  have "\<forall>i j. fEps ?t i j = 0" by simp
  from from_zero [OF this] have whole: "fEps (SetNSI 0 0 0 0 0 0 0 0 0 ?t) 2 1 = 0"
    by simp
  have "fNumNus ?s = 3 \<and> \<not> fIsNuBar ?s" by (simp add: example_object_def)
  with at_s obtain s' where
    run: "UpdateHam example_constants (SetNSI 0 0 0 0 0 0 0 0 0 ?s) = Some s'"
    and entries: "\<And>i j. 0 \<le> i \<and> i \<le> j \<and> j \<le> 2 \<Longrightarrow>
      fHam s' i j =
        fHms ?s i j / complex_of_real (2 * kGeV2eV example_constants * fEnergy ?s)
        + complex_of_real (sqrt 2 * kGf example_constants * kK2 example_constants
                           * density (fPath ?s) * zoa (fPath ?s))
          * (if i = 0 \<and> j = 0 then 1 else 0)"
    by blast
  have "fHam s' 0 0 = complex_of_real (15 * sqrt 2)"
    using entries [of 0 0] by (simp add: example_object_def example_constants_def)
  moreover have "fHam s' 1 1 = 1 / 2000000000"
    using entries [of 1 1] by (simp add: example_object_def example_constants_def)
  moreover have "fHam s' 1 2 = \<i> / 2000000000"
    using entries [of 1 2] by (simp add: example_object_def example_constants_def)
  ultimately show ?thesis
    using upper lower whole run by blast
qed

subsection \<open>\<^verbatim>\<open>GetEps\<close> only reads\<close>

lemma same_object:
  "without_output s = without_output t \<Longrightarrow> t = s\<lparr>cout := cout t\<rparr>"
  unfolding without_output_def
  by (cases s, cases t) simp

lemma SetEps_output_blind:
  "without_output (SetEps a b v p (s\<lparr>cout := c\<rparr>)) = without_output (SetEps a b v p s)"
  by (simp add: SetEps_def without_output_def Let_def)

lemma SetEps_same_object:
  assumes "without_output s = without_output t"
  shows "without_output (SetEps a b v p s) = without_output (SetEps a b v p t)"
  by (subst same_object [OF assms]) (simp only: SetEps_output_blind)

lemma GetEps_without_output: "without_output (snd (GetEps a b s)) = without_output s"
  by (simp add: GetEps_def without_output_def Let_def)

lemma UpdateHam_body_cout:
  "UpdateHam_body lv kr i j (s\<lparr>cout := c\<rparr>) = (UpdateHam_body lv kr i j s)\<lparr>cout := c\<rparr>"
  by (simp add: UpdateHam_body_def)

lemma UpdateHam_j_cout:
  "UpdateHam_j lv kr i j (s\<lparr>cout := c\<rparr>) = (UpdateHam_j lv kr i j s)\<lparr>cout := c\<rparr>"
proof (induction lv kr i j s rule: UpdateHam_j.induct)
  case (1 lv kr i j s)
  show ?case
  proof (cases "j < fNumNus s")
    case True
    with "1" show ?thesis
      by (subst UpdateHam_j.simps, subst (2) UpdateHam_j.simps) (simp add: UpdateHam_body_cout)
  next
    case False
    then show ?thesis
      by (subst UpdateHam_j.simps, subst (2) UpdateHam_j.simps) simp
  qed
qed

lemma UpdateHam_i_cout:
  "UpdateHam_i lv kr i (s\<lparr>cout := c\<rparr>) = (UpdateHam_i lv kr i s)\<lparr>cout := c\<rparr>"
proof (induction lv kr i s rule: UpdateHam_i.induct)
  case (1 lv kr i s)
  show ?case
  proof (cases "i < fNumNus s")
    case True
    with "1" show ?thesis
      by (subst UpdateHam_i.simps, subst (2) UpdateHam_i.simps) (simp add: UpdateHam_j_cout)
  next
    case False
    then show ?thesis
      by (subst UpdateHam_i.simps, subst (2) UpdateHam_i.simps) simp
  qed
qed

lemma UpdateHam_output_blind:
  "map_option without_output (UpdateHam k (s\<lparr>cout := c\<rparr>)) =
   map_option without_output (UpdateHam k s)"
  by (simp add: UpdateHam_def Let_def UpdateHam_i_cout without_output_def)

lemma UpdateHam_same_object:
  assumes "without_output s = without_output t"
  shows "map_option without_output (UpdateHam k s) = map_option without_output (UpdateHam k t)"
  by (subst same_object [OF assms]) (simp only: UpdateHam_output_blind)

lemma exec_same_object:
  assumes "without_output s = without_output t"
  shows "map_option without_output (exec k c s) = map_option without_output (exec k c t)"
proof (cases c)
  case (Call_SetNSI a b c d e f g h i)
  then show ?thesis
    by (simp add: SetNSI_calls SetEps_same_object [OF SetEps_same_object
          [OF SetEps_same_object [OF SetEps_same_object [OF SetEps_same_object
          [OF SetEps_same_object [OF assms]]]]]])
next
  case Call_UpdateHam
  then show ?thesis by (simp add: UpdateHam_same_object [OF assms])
next
  case (Call_GetEps a b)
  then show ?thesis by (simp add: GetEps_without_output assms)
qed (simp_all add: SetEps_same_object [OF assms] SetEps_ee_def SetEps_mumu_def
      SetEps_tautau_def SetEps_emu_def SetEps_etau_def SetEps_mutau_def)

lemma run_same_object:
  assumes "without_output s = without_output t"
  shows "map_option without_output (run k cs s) =
         map_option without_output (run k (filter (\<lambda>c. \<not> is_GetEps c) cs) t)"
  using assms
proof (induction cs arbitrary: s t)
  case Nil
  then show ?case by simp
next
  case (Cons c cs)
  show ?case
  proof (cases "is_GetEps c")
    case True
    then obtain a b where c: "c = Call_GetEps a b" by (cases c) simp_all
    have "without_output (snd (GetEps a b s)) = without_output t"
      using Cons.prems by (simp add: GetEps_without_output)
    from Cons.IH [OF this] show ?thesis by (simp add: c)
  next
    case False
    from exec_same_object [OF Cons.prems, of k c]
    show ?thesis
    proof (cases "exec k c s")
      case None
      with \<open>map_option without_output (exec k c s) = map_option without_output (exec k c t)\<close>
      have "exec k c t = None" by simp
      with None False show ?thesis by simp
    next
      case (Some s')
      with \<open>map_option without_output (exec k c s) = map_option without_output (exec k c t)\<close>
      obtain t' where t': "exec k c t = Some t'" "without_output s' = without_output t'"
        by (cases "exec k c t") simp_all
      from Cons.IH [OF t'(2)] Some t'(1) False show ?thesis by simp
    qed
  qed
qed

text \<open>
  C9. \<^verbatim>\<open>GetEps\<close> changes nothing in the object but the printed output, on any pair of
  indices (accepted, reversed or rejected): \<^verbatim>\<open>fEps\<close>, \<^verbatim>\<open>fGotES\<close> and \<^verbatim>\<open>fHam\<close> are as before.
  So in any sequence of calls the calls of \<^verbatim>\<open>GetEps\<close> can be left out, and a call of
  \<^verbatim>\<open>GetEps\<close> can be moved from the front of a sequence to its end, without changing the
  object the run leaves (the printed output set aside) or whether the run returns.
\<close>

theorem GetEps_never_mutates:
  "fEps (snd (GetEps flvi flvj s)) = fEps s \<and>
   fGotES (snd (GetEps flvi flvj s)) = fGotES s \<and>
   fHam (snd (GetEps flvi flvj s)) = fHam s \<and>
   snd (GetEps flvi flvj s) = s\<lparr>cout := cout (snd (GetEps flvi flvj s))\<rparr> \<and>
   map_option without_output (run k cs s) =
     map_option without_output (run k (filter (\<lambda>c. \<not> is_GetEps c) cs) s) \<and>
   map_option without_output (run k (Call_GetEps flvi flvj # cs) s) =
     map_option without_output (run k (cs @ [Call_GetEps flvi flvj]) s)"
proof -
  have fields: "snd (GetEps flvi flvj s) = s\<lparr>cout := cout (snd (GetEps flvi flvj s))\<rparr>"
    by (simp add: GetEps_def Let_def)
  have "fEps (snd (GetEps flvi flvj s)) = fEps s"
    "fGotES (snd (GetEps flvi flvj s)) = fGotES s"
    "fHam (snd (GetEps flvi flvj s)) = fHam s"
    by (subst fields, simp)+
  moreover have erase: "map_option without_output (run k ds s) =
      map_option without_output (run k (filter (\<lambda>c. \<not> is_GetEps c) ds) s)" for ds
    by (rule run_same_object) simp
  moreover have "map_option without_output (run k (Call_GetEps flvi flvj # cs) s) =
      map_option without_output (run k (cs @ [Call_GetEps flvi flvj]) s)"
    using erase [of "Call_GetEps flvi flvj # cs"] erase [of "cs @ [Call_GetEps flvi flvj]"]
    by simp
  ultimately show ?thesis using fields by blast
qed

theorem GetEps_never_mutates_witness:
  "fEps (snd (GetEps 2 0 example_object)) = fEps example_object \<and>
   fHam (snd (GetEps 7 0 example_object)) = fHam example_object \<and>
   map_option without_output
     (run example_constants
        [Call_GetEps 2 0, Call_SetEps 0 1 1 0, Call_GetEps 7 0, Call_UpdateHam] example_object) =
   map_option without_output
     (run example_constants [Call_SetEps 0 1 1 0, Call_UpdateHam] example_object)"
  using GetEps_never_mutates [of 2 0 example_object example_constants
      "[Call_GetEps 2 0, Call_SetEps 0 1 1 0, Call_GetEps 7 0, Call_UpdateHam]"]
    GetEps_never_mutates [of 7 0 example_object]
  by simp

subsection \<open>A freshly built object\<close>

lemma fEps_inherited: "fEps (inherited f s) = fEps s"
  by (cases s) (simp add: inherited_def pmns_fast.defs pmns_nsi.defs)

lemma fEps_extend: "fEps (pmns_fast.extend b (pmns_nsi.fields z)) = z"
  by (simp add: pmns_fast.defs pmns_nsi.defs)

lemma PMNS_NSI_fEps:
  "fEps (PMNS_NSI fast SetStdPath) i j = (if i = 0 \<and> j = 0 then 1 else 0)"
  by (simp add: PMNS_NSI_def Let_def SetNSI_zero_fEps fEps_inherited fEps_extend)

text \<open>
  C10. Right after construction \<^verbatim>\<open>GetEps(0,0)\<close> returns 1 and \<^verbatim>\<open>GetEps(i,j)\<close> returns 0
  for every other pair \<open>0 \<le> i \<le> j \<le> 2\<close>, whatever the base-class constructor and
  \<^verbatim>\<open>SetStdPath\<close> do to the inherited fields; the whole array \<^verbatim>\<open>fEps\<close> is \<open>diag(1,0,0)\<close>.
\<close>

theorem constructor_eps:
  "fst (GetEps 0 0 (PMNS_NSI fast SetStdPath)) = 1 \<and>
   (\<forall>i j. 0 \<le> i \<and> i \<le> j \<and> j \<le> 2 \<and> (i, j) \<noteq> (0, 0) \<longrightarrow>
      fst (GetEps i j (PMNS_NSI fast SetStdPath)) = 0) \<and>
   (\<forall>i j. fEps (PMNS_NSI fast SetStdPath) i j = (if i = 0 \<and> j = 0 then 1 else 0))"
  by (simp add: GetEps_ordered PMNS_NSI_fEps)

theorem constructor_eps_witness:
  "fst (GetEps 0 0 (PMNS_NSI example_fast example_SetStdPath)) = 1 \<and>
   fst (GetEps 0 1 (PMNS_NSI example_fast example_SetStdPath)) = 0 \<and>
   fst (GetEps 2 2 (PMNS_NSI example_fast example_SetStdPath)) = 0 \<and>
   fEps (PMNS_NSI example_fast example_SetStdPath) 2 1 = 0"
proof -
  note built = constructor_eps [of example_fast example_SetStdPath]
  from built have others: "\<And>i j. 0 \<le> i \<and> i \<le> j \<and> j \<le> 2 \<and> (i, j) \<noteq> (0, 0) \<Longrightarrow>
      fst (GetEps i j (PMNS_NSI example_fast example_SetStdPath)) = 0"
    by blast
  from built have "fst (GetEps 0 0 (PMNS_NSI example_fast example_SetStdPath)) = 1"
    by blast
  moreover have "fst (GetEps 0 1 (PMNS_NSI example_fast example_SetStdPath)) = 0"
    using others [of 0 1] by simp
  moreover have "fst (GetEps 2 2 (PMNS_NSI example_fast example_SetStdPath)) = 0"
    using others [of 2 2] by simp
  moreover from built have "fEps (PMNS_NSI example_fast example_SetStdPath) 2 1 = 0"
    by simp
  ultimately show ?thesis by blast
qed

end
